theory Spec2Isabelle
  imports Complex_Main "HOL-Library.Word"
begin

section \<open>The MySQL cache backend of django-mysql (src/django_mysql/cache.py)\<close>

text \<open>
  A shallow embedding of the class \<open>MySQLCache\<close>. Python integers are \<open>int\<close>; the float
  returned by \<open>time.time()\<close> is a rational number of seconds (every finite float is one),
  with the float arithmetic done on it taken as exact; exceptions are values of the type
  \<open>error\<close>; the backing table is a map from the unique column \<open>cache_key\<close> to the other
  two columns; every \<open>cursor.execute\<close> is recorded in a log of the statements issued.
\<close>

subsection \<open>Constants and the expiration clock\<close>

definition BIGINT_UNSIGNED_MAX :: int where
  "BIGINT_UNSIGNED_MAX = 18446744073709551615"

text \<open>\<open>FOREVER_TIMEOUT = BIGINT_UNSIGNED_MAX >> 1\<close>\<close>

definition FOREVER_TIMEOUT :: int where
  "FOREVER_TIMEOUT = drop_bit 1 BIGINT_UNSIGNED_MAX"

text \<open>Python's \<open>int(x)\<close> on a float truncates towards zero.\<close>

definition py_int :: "rat \<Rightarrow> int" where
  "py_int x = (if 0 \<le> x then \<lfloor>x\<rfloor> else \<lceil>x\<rceil>)"

text \<open>
  The \<open>timeout\<close> argument: \<open>None\<close>, the framework's sentinel object \<open>DEFAULT_TIMEOUT\<close>
  (the default of every \<open>timeout\<close> parameter), or a number of seconds.
\<close>

datatype timeout = NoTimeout | DEFAULT_TIMEOUT | Seconds rat

datatype error =
    ValueError string
  | TypeError
  | PicklingError
  | UnpicklingError
  | KeyError
  | ProgrammingError

text \<open>
  Modelled from the spec: the base class's \<open>get_backend_timeout\<close> (reached through
  \<open>super\<close>; the framework's \<open>BaseCache\<close>, not under src/). Section 4.3 gives, for a
  relative timeout of \<open>s\<close> seconds, the absolute expiry \<open>now + s\<close>, and leaves zero to the
  framework's convention, which replaces it by \<open>-1\<close>; \<open>DEFAULT_TIMEOUT\<close> stands for the
  configured default timeout, which may itself be \<open>None\<close>. The first argument is that
  configured default, the second the reading of \<open>time.time()\<close>. The result is in
  seconds, \<open>None\<close> for a timeout of \<open>None\<close>.
\<close>

definition base_get_backend_timeout :: "rat option \<Rightarrow> rat \<Rightarrow> timeout \<Rightarrow> rat option" where
  "base_get_backend_timeout default_timeout t timeout =
     (let timeout' =
        (case timeout of
           DEFAULT_TIMEOUT \<Rightarrow> default_timeout
         | NoTimeout \<Rightarrow> None
         | Seconds s \<Rightarrow> if s = 0 then Some (- 1) else Some s)
      in case timeout' of None \<Rightarrow> None | Some s \<Rightarrow> Some (t + s))"

text \<open>
  \<open>MySQLCache.get_backend_timeout\<close>. \<open>None * 1000\<close> raises \<open>TypeError\<close>.
\<close>

definition get_backend_timeout :: "rat option \<Rightarrow> rat \<Rightarrow> timeout \<Rightarrow> error + int" where
  "get_backend_timeout default_timeout t timeout =
     (if timeout = NoTimeout then Inr FOREVER_TIMEOUT
      else case base_get_backend_timeout default_timeout t timeout of
             None \<Rightarrow> Inl TypeError
           | Some timeout' \<Rightarrow> Inr (py_int (timeout' * 1000)))"

subsection \<open>Strings: the statement builder's helpers\<close>

text \<open>
  Modelled from the spec: \<open>collapse_spaces\<close> of \<open>django_mysql.utils\<close> is not under src/.
  Section 4.4 fixes only the shapes of the statements, so the helper is taken to do what
  its name says: every run of whitespace becomes one space and the ends are stripped.
\<close>

definition is_space :: "char \<Rightarrow> bool" where
  "is_space c = (c \<in> {CHR '' '', CHR 0x09, CHR 0x0A, CHR 0x0B, CHR 0x0C, CHR 0x0D})"

text \<open>The flag says that the character before was whitespace, already replaced.\<close>

fun squeeze :: "bool \<Rightarrow> string \<Rightarrow> string" where
  "squeeze prev [] = []"
| "squeeze prev (c # cs) =
     (if is_space c then (if prev then squeeze True cs else CHR '' '' # squeeze True cs)
      else c # squeeze False cs)"

definition strip :: "string \<Rightarrow> string" where
  "strip s = rev (dropWhile is_space (rev (dropWhile is_space s)))"

definition collapse_spaces :: "string \<Rightarrow> string" where
  "collapse_spaces s = strip (squeeze False s)"

text \<open>
  \<open>s.replace(old, new)\<close>: every occurrence of \<open>old\<close>, from the left, without
  overlaps. The source never replaces the empty string, which is left alone here.
\<close>

fun replace_str :: "string \<Rightarrow> string \<Rightarrow> string \<Rightarrow> string" where
  "replace_str old new [] = []"
| "replace_str old new (c # cs) =
     (if old \<noteq> [] \<and> take (length old) (c # cs) = old
      then new @ replace_str old new (drop (length old - 1) cs)
      else c # replace_str old new cs)"

text \<open>\<open>sep.join(xs)\<close>\<close>

fun join_str :: "string \<Rightarrow> string list \<Rightarrow> string" where
  "join_str sep [] = []"
| "join_str sep [x] = x"
| "join_str sep (x # y # ys) = x @ sep @ join_str sep (y # ys)"

text \<open>
  \<open>template.format(table_name=table)\<close>: the field \<open>{table_name}\<close> is filled in and the
  doubled braces are unescaped. The templates hold no other field.
\<close>

fun format_table_name :: "string \<Rightarrow> string \<Rightarrow> string" where
  "format_table_name tn [] = []"
| "format_table_name tn (c # cs) =
     (if take 12 (c # cs) = ''{table_name}'' then tn @ format_table_name tn (drop 11 cs)
      else if take 2 (c # cs) = ''{{'' then CHR ''{'' # format_table_name tn (drop 1 cs)
      else if take 2 (c # cs) = ''}}'' then CHR ''}'' # format_table_name tn (drop 1 cs)
      else c # format_table_name tn cs)"

text \<open>
  \<open>template % table\<close> with one argument: \<open>%s\<close> is the argument, \<open>%%\<close> a percent sign.
\<close>

fun percent_format :: "string \<Rightarrow> string \<Rightarrow> string" where
  "percent_format tn [] = []"
| "percent_format tn (c # cs) =
     (if take 2 (c # cs) = ''%s'' then tn @ percent_format tn (drop 1 cs)
      else if take 2 (c # cs) = ''%%'' then CHR ''%'' # percent_format tn (drop 1 cs)
      else c # percent_format tn cs)"

subsection \<open>The statement templates\<close>

definition get_query :: string where
  "get_query = collapse_spaces
     ''\<newline>        SELECT value, expires\<newline>        FROM {table_name}\<newline>        WHERE cache_key = %s\<newline>    ''"


definition set_many_query :: string where
  "set_many_query = collapse_spaces
     ''\<newline>        INSERT INTO {table_name} (cache_key, value, expires)\<newline>        VALUES {{VALUES_CLAUSE}}\<newline>        ON DUPLICATE KEY UPDATE\<newline>            value=VALUES(value),\<newline>            expires=VALUES(expires)\<newline>    ''"

definition set_query :: string where
  "set_query = replace_str ''{{VALUES_CLAUSE}}'' ''(%s, %s, %s)'' set_many_query"

definition add_query :: string where
  "add_query = collapse_spaces
     ''\<newline>        INSERT INTO {table_name} (cache_key, value, expires)\<newline>        VALUES (%s, %s, %s)\<newline>        ON DUPLICATE KEY UPDATE\<newline>            value=IF(expires > @tmp_now:=%s, value, VALUES(value)),\<newline>            expires=IF(\<newline>                expires > @tmp_now,\<newline>                IFNULL(\<newline>                    LEAST(LAST_INSERT_ID(444), NULL),\<newline>                    expires\<newline>                ),\<newline>                VALUES(expires)\<newline>            )\<newline>    ''"




definition clear_query :: string where
  "clear_query = ''DELETE FROM %s''"

subsection \<open>The backing table and the statements' meaning\<close>

type_synonym key = string
type_synonym blob = "8 word list"
type_synonym version = "int option"

text \<open>
  A row of the table without its unique column \<open>cache_key\<close>: the columns \<open>value\<close> and
  \<open>expires\<close>. The uniqueness constraint makes the table a map from \<open>cache_key\<close>.
\<close>

record cache_row =
  row_value :: blob
  row_expires :: int

type_synonym table = "key \<rightharpoonup> cache_row"

text \<open>The parameters handed to \<open>cursor.execute\<close> beside the statement.\<close>

datatype param = PStr string | PBytes blob | PInt int | PFloat rat | PSeq "string list"

text \<open>
  The store: the table, and the statements issued so far with their parameters. Reads
  and writes go to the same database.
\<close>

record store =
  table :: table
  executed :: "(string \<times> param list) list"

definition execute :: "string \<Rightarrow> param list \<Rightarrow> store \<Rightarrow> store" where
  "execute query params st = st\<lparr>executed := executed st @ [(query, params)]\<rparr>"

text \<open>\<open>SELECT value, expires FROM t WHERE cache_key = %s\<close>, then \<open>fetchone()\<close>\<close>

definition sql_get :: "table \<Rightarrow> key \<Rightarrow> (blob \<times> int) option" where
  "sql_get tbl k = (case tbl k of None \<Rightarrow> None | Some r \<Rightarrow> Some (row_value r, row_expires r))"


text \<open>
  \<open>INSERT ... VALUES (%s, %s, %s) ON DUPLICATE KEY UPDATE value=VALUES(value),
  expires=VALUES(expires)\<close>: insert, or overwrite both columns of the row in the way.
\<close>

definition sql_set :: "table \<Rightarrow> key \<Rightarrow> blob \<Rightarrow> int \<Rightarrow> table" where
  "sql_set tbl k b e = tbl(k \<mapsto> \<lparr>row_value = b, row_expires = e\<rparr>)"

text \<open>
  The same statement with one tuple for every three parameters, applied in order. The
  grammar asks for at least one tuple after \<open>VALUES\<close>: with none, the statement is
  rejected (\<open>None\<close>).
\<close>

fun sql_set_tuples :: "table \<Rightarrow> param list \<Rightarrow> table option" where
  "sql_set_tuples tbl [] = Some tbl"
| "sql_set_tuples tbl (PStr k # PBytes b # PInt e # ps) = sql_set_tuples (sql_set tbl k b e) ps"
| "sql_set_tuples tbl ps = None"

definition sql_set_many :: "table \<Rightarrow> param list \<Rightarrow> table option" where
  "sql_set_many tbl ps = (if ps = [] then None else sql_set_tuples tbl ps)"

text \<open>SQL's \<open>LEAST\<close> and \<open>IFNULL\<close> on nullable integers (\<open>None\<close> is \<open>NULL\<close>).\<close>

definition LEAST_sql :: "int option \<Rightarrow> int option \<Rightarrow> int option" where
  "LEAST_sql a b = (case (a, b) of (Some x, Some y) \<Rightarrow> Some (min x y) | _ \<Rightarrow> None)"

definition IFNULL :: "int option \<Rightarrow> int \<Rightarrow> int" where
  "IFNULL a b = (case a of None \<Rightarrow> b | Some x \<Rightarrow> x)"

text \<open>
  \<open>_add_query\<close>: the new table and the connection's \<open>insert_id()\<close> after the statement.
  There is no \<open>AUTO_INCREMENT\<close> column, so the identifier is 0 unless the statement
  evaluates \<open>LAST_INSERT_ID(444)\<close>, which returns 444 and sets it. With no row in the way
  the tuple is inserted. With one, \<open>value\<close> and then \<open>expires\<close> are assigned, each from its
  \<open>IF\<close> on the row's present \<open>expires\<close> and \<open>@tmp_now\<close>, the fourth parameter.
\<close>

definition sql_add :: "table \<Rightarrow> key \<Rightarrow> blob \<Rightarrow> int \<Rightarrow> rat \<Rightarrow> table \<times> int" where
  "sql_add tbl k b e now =
     (case tbl k of
        None \<Rightarrow> (sql_set tbl k b e, 0)
      | Some r \<Rightarrow>
          (let tmp_now = now;
               new_value = (if of_int (row_expires r) > tmp_now then row_value r else b);
               (new_expires, insert_id) =
                 (if of_int (row_expires r) > tmp_now
                  then (IFNULL (LEAST_sql (Some 444) None) (row_expires r), 444)
                  else (e, 0))
           in (sql_set tbl k new_value new_expires, insert_id)))"



definition sql_clear :: "table \<Rightarrow> table" where
  "sql_clear tbl = Map.empty"


subsection \<open>Configuration, key validation and the codec\<close>

text \<open>
  What the class is given from outside: the framework's key function \<open>make_key\<close> and
  the base class's \<open>validate_key\<close> (\<open>None\<close> when it returns, the exception when it
  raises), the configured default timeout, the quoted table name
  (\<open>connections[db].ops.quote_name(self._table)\<close>), and the \<open>pickle\<close> module:
  \<open>dumps\<close> and \<open>loads\<close>, \<open>None\<close> when they raise.
\<close>

record 'v config =
  make_key :: "key \<Rightarrow> version \<Rightarrow> key"
  super_validate_key :: "key \<Rightarrow> error option"
  default_timeout :: "rat option"
  table_name :: string
  pickle_dumps :: "'v \<Rightarrow> blob option"
  pickle_loads :: "blob \<Rightarrow> 'v option"

text \<open>The exception that \<open>validate_key\<close> raises for a key, with its message.\<close>

definition too_long :: "key \<Rightarrow> error" where
  "too_long key = ValueError (''Cache key is longer than the maxmimum 250 characters: '' @ key)"

definition validate_key :: "'v config \<Rightarrow> key \<Rightarrow> error option" where
  "validate_key cfg key =
     (if length key > 250 then Some (too_long key) else super_validate_key cfg key)"

definition encode :: "'v config \<Rightarrow> 'v \<Rightarrow> error + blob" where
  "encode cfg v = (case pickle_dumps cfg v of None \<Rightarrow> Inl PicklingError | Some b \<Rightarrow> Inr b)"

text \<open>On a byte string \<open>force_bytes\<close> does nothing, and so does \<open>process_clob\<close>.\<close>

definition force_bytes :: "blob \<Rightarrow> blob" where
  "force_bytes b = b"

definition process_clob :: "blob \<Rightarrow> blob" where
  "process_clob b = b"

definition decode :: "'v config \<Rightarrow> blob \<Rightarrow> error + 'v" where
  "decode cfg b =
     (case pickle_loads cfg (force_bytes b) of None \<Rightarrow> Inl UnpicklingError | Some v \<Rightarrow> Inr v)"

subsection \<open>The operations\<close>

text \<open>
  Every operation takes the store and returns its result, or the exception raised, with
  the store as it then is. The arguments \<open>t\<close>, \<open>t0\<close>, \<open>t1\<close> are the readings of
  \<open>time.time()\<close> the operation makes, in the order in which it makes them.
\<close>

definition get :: "'v config \<Rightarrow> key \<Rightarrow> 'v \<Rightarrow> version \<Rightarrow> rat \<Rightarrow> store \<Rightarrow> (error + 'v) \<times> store" where
  "get cfg key dflt version t st =
     (let key = make_key cfg key version in
      case validate_key cfg key of
        Some e \<Rightarrow> (Inl e, st)
      | None \<Rightarrow>
          (let st' = execute (format_table_name (table_name cfg) get_query) [PStr key] st;
               row = sql_get (table st) key
           in case row of
                None \<Rightarrow> (Inr dflt, st')
              | Some (v, expires) \<Rightarrow>
                  (let now = py_int (t * 1000) in
                   if expires < now then (Inr dflt, st')
                   else (let blob = process_clob v in (decode cfg blob, st')))))"






text \<open>The two values of the argument \<open>mode\<close> of \<open>_base_set\<close>: \<open>'set'\<close> and \<open>'add'\<close>.\<close>

datatype mode = Set_mode | Add_mode

definition base_set ::
  "'v config \<Rightarrow> mode \<Rightarrow> key \<Rightarrow> 'v \<Rightarrow> timeout \<Rightarrow> rat \<Rightarrow> rat \<Rightarrow> store \<Rightarrow> (error + bool) \<times> store" where
  "base_set cfg mode key v timeout t0 t1 st =
     (case get_backend_timeout (default_timeout cfg) t0 timeout of
        Inl e \<Rightarrow> (Inl e, st)
      | Inr expiry \<Rightarrow>
          (let now = t1 * 1000 in
           case encode cfg v of
             Inl e \<Rightarrow> (Inl e, st)
           | Inr blob \<Rightarrow>
               (case mode of
                  Set_mode \<Rightarrow>
                    (let st' = execute (format_table_name (table_name cfg) set_query)
                                 [PStr key, PBytes blob, PInt expiry] st
                     in (Inr True, st'\<lparr>table := sql_set (table st) key blob expiry\<rparr>))
                | Add_mode \<Rightarrow>
                    (let st' = execute (format_table_name (table_name cfg) add_query)
                                 [PStr key, PBytes blob, PInt expiry, PFloat now] st;
                         (tbl', insert_id) = sql_add (table st) key blob expiry now
                     in (Inr (insert_id \<noteq> 444), st'\<lparr>table := tbl'\<rparr>)))))"


definition add ::
  "'v config \<Rightarrow> key \<Rightarrow> 'v \<Rightarrow> timeout \<Rightarrow> version \<Rightarrow> rat \<Rightarrow> rat \<Rightarrow> store \<Rightarrow> (error + bool) \<times> store" where
  "add cfg key v timeout version t0 t1 st =
     (let key = make_key cfg key version in
      case validate_key cfg key of
        Some e \<Rightarrow> (Inl e, st)
      | None \<Rightarrow> base_set cfg Add_mode key v timeout t0 t1 st)"

text \<open>
  The loop of \<open>set_many\<close> over the items of \<open>data\<close>, extending \<open>params\<close>. The dictionary
  \<open>data\<close> is the list of its items.
\<close>

fun set_many_params ::
  "'v config \<Rightarrow> version \<Rightarrow> int \<Rightarrow> (key \<times> 'v) list \<Rightarrow> param list \<Rightarrow> error + param list" where
  "set_many_params cfg version expiry [] params = Inr params"
| "set_many_params cfg version expiry ((key, v) # items) params =
     (let made_key = make_key cfg key version in
      case validate_key cfg made_key of
        Some e \<Rightarrow> Inl e
      | None \<Rightarrow>
          (case encode cfg v of
             Inl e \<Rightarrow> Inl e
           | Inr blob \<Rightarrow>
               set_many_params cfg version expiry items
                 (params @ [PStr made_key, PBytes blob, PInt expiry])))"

text \<open>The statement that \<open>set_many\<close> builds for \<open>data\<close>.\<close>

definition set_many_statement :: "'v config \<Rightarrow> (key \<times> 'v) list \<Rightarrow> string" where
  "set_many_statement cfg data =
     format_table_name (table_name cfg)
       (replace_str ''{{VALUES_CLAUSE}}''
          (join_str '','' (map (\<lambda>key. ''(%s, %s, %s)'') data))
          set_many_query)"

definition set_many ::
  "'v config \<Rightarrow> (key \<times> 'v) list \<Rightarrow> timeout \<Rightarrow> version \<Rightarrow> rat \<Rightarrow> store \<Rightarrow> (error + unit) \<times> store" where
  "set_many cfg data timeout version t st =
     (case get_backend_timeout (default_timeout cfg) t timeout of
        Inl e \<Rightarrow> (Inl e, st)
      | Inr expiry \<Rightarrow>
          (case set_many_params cfg version expiry data [] of
             Inl e \<Rightarrow> (Inl e, st)
           | Inr params \<Rightarrow>
               (let query = set_many_statement cfg data;
                    st' = execute query params st
                in case sql_set_many (table st) params of
                     None \<Rightarrow> (Inl ProgrammingError, st')
                   | Some tbl' \<Rightarrow> (Inr (), st'\<lparr>table := tbl'\<rparr>))))"




definition clear :: "'v config \<Rightarrow> store \<Rightarrow> (error + unit) \<times> store" where
  "clear cfg st =
     (let st' = execute (percent_format (table_name cfg) clear_query) [] st
      in (Inr (), st'\<lparr>table := sql_clear (table st)\<rparr>))"

subsection \<open>An example configuration\<close>

text \<open>
  Values are byte strings pickled as themselves, made keys carry the prefix \<open>:1:\<close> (an
  empty key prefix and version 1), and the base class accepts every key.
\<close>

definition cfg0 :: "blob config" where
  "cfg0 = \<lparr>make_key = (\<lambda>key version. '':1:'' @ key),
           super_validate_key = (\<lambda>key. None),
           default_timeout = Some 300,
           table_name = ''`cache_table`'',
           pickle_dumps = Some,
           pickle_loads = Some\<rparr>"

text \<open>
  An example table at the clock reading of one second (1000 ms): a row that expires later
  and a row whose expiry is that very millisecond.
\<close>

definition st0 :: store where
  "st0 = \<lparr>table = ['':1:live'' \<mapsto> \<lparr>row_value = [1], row_expires = 2000\<rparr>,
                    '':1:old'' \<mapsto> \<lparr>row_value = [2], row_expires = 1000\<rparr>],
          executed = []\<rparr>"

section \<open>Properties\<close>

lemma FOREVER_TIMEOUT_value: "FOREVER_TIMEOUT = 9223372036854775807"
  by (simp add: FOREVER_TIMEOUT_def BIGINT_UNSIGNED_MAX_def drop_bit_eq_div)

text \<open>
  C3, as stated: the FOREVER sentinel equals \<open>2^64 / 2 = 9223372036854775808\<close>. The code
  shifts the largest unsigned 64-bit value, \<open>2^64 - 1\<close>, right by one bit, which is one
  less.
\<close>

theorem C3_forever_not_two_pow_63: "FOREVER_TIMEOUT \<noteq> 2 ^ 64 div 2 \<and> FOREVER_TIMEOUT \<noteq> 9223372036854775808"
  by (simp add: FOREVER_TIMEOUT_value)

text \<open>
  C3, amended: the FOREVER sentinel is the largest unsigned 64-bit value halved, rounding
  down: \<open>(2^64 - 1) div 2 = 2^63 - 1 = 9223372036854775807\<close>.
\<close>

theorem C3_forever_value:
  "FOREVER_TIMEOUT = (2 ^ 64 - 1) div 2 \<and> FOREVER_TIMEOUT = 2 ^ 63 - 1
   \<and> FOREVER_TIMEOUT = 9223372036854775807 \<and> BIGINT_UNSIGNED_MAX = 2 ^ 64 - 1"
  by (simp add: FOREVER_TIMEOUT_value BIGINT_UNSIGNED_MAX_def)

subsection \<open>The expiration clock\<close>




subsection \<open>The conditional insert\<close>

lemma sql_add_absent: "tbl k = None \<Longrightarrow> sql_add tbl k b e now = (sql_set tbl k b e, 0)"
  by (simp add: sql_add_def)

lemma sql_add_live:
  "tbl k = Some r \<Longrightarrow> now < of_int (row_expires r) \<Longrightarrow> sql_add tbl k b e now = (tbl, 444)"
  by (simp add: sql_add_def sql_set_def IFNULL_def LEAST_sql_def map_upd_triv)

lemma sql_add_expired:
  "tbl k = Some r \<Longrightarrow> \<not> now < of_int (row_expires r) \<Longrightarrow>
   sql_add tbl k b e now = (sql_set tbl k b e, 0)"
  by (simp add: sql_add_def)

lemma add_valid:
  assumes "validate_key cfg (make_key cfg key version) = None"
      and "get_backend_timeout (default_timeout cfg) t0 timeout = Inr expiry"
      and "encode cfg v = Inr blob"
  shows "add cfg key v timeout version t0 t1 st =
           (Inr (snd (sql_add (table st) (make_key cfg key version) blob expiry (t1 * 1000)) \<noteq> 444),
            \<lparr>table = fst (sql_add (table st) (make_key cfg key version) blob expiry (t1 * 1000)),
             executed = executed st @
               [(format_table_name (table_name cfg) add_query,
                 [PStr (make_key cfg key version), PBytes blob, PInt expiry, PFloat (t1 * 1000)])]\<rparr>)"
  using assms by (simp add: add_def base_set_def execute_def Let_def split: prod.splits)

text \<open>
  C1: with a valid key, an expiry and an encoded value, \<open>add\<close> returns true exactly when
  the key was absent or held a row whose expiry had passed (not after the reading of the
  clock sent with the statement), and the row is then the new one; it returns false
  exactly when a live row held the key, and the table is then unchanged.
\<close>

theorem C1_add:
  assumes "validate_key cfg (make_key cfg key version) = None"
      and "get_backend_timeout (default_timeout cfg) t0 timeout = Inr expiry"
      and "encode cfg v = Inr blob"
  shows "\<exists>b st'. add cfg key v timeout version t0 t1 st = (Inr b, st')
           \<and> (b \<longleftrightarrow> table st (make_key cfg key version) = None
                    \<or> (\<exists>r. table st (make_key cfg key version) = Some r
                            \<and> of_int (row_expires r) \<le> t1 * 1000))
           \<and> (\<not> b \<longleftrightarrow> (\<exists>r. table st (make_key cfg key version) = Some r
                            \<and> t1 * 1000 < of_int (row_expires r)))
           \<and> (b \<longrightarrow> table st' = (table st)(make_key cfg key version \<mapsto>
                                     \<lparr>row_value = blob, row_expires = expiry\<rparr>))
           \<and> (\<not> b \<longrightarrow> table st' = table st)"
proof (cases "table st (make_key cfg key version)")
  case None
  then show ?thesis
    by (auto simp: add_valid [OF assms] sql_add_absent sql_set_def)
next
  case (Some r)
  show ?thesis
  proof (cases "t1 * 1000 < of_int (row_expires r)")
    case True
    then show ?thesis
      using Some by (auto simp: add_valid [OF assms] sql_add_live)
  next
    case False
    then show ?thesis
      using Some by (auto simp: add_valid [OF assms] sql_add_expired sql_set_def not_less)
  qed
qed

theorem C1_add_witness:
  "validate_key cfg0 (make_key cfg0 ''old'' None) = None
   \<and> get_backend_timeout (default_timeout cfg0) 1 (Seconds 5) = Inr 6000
   \<and> encode cfg0 [9] = Inr [9]
   \<and> (\<exists>b st'. add cfg0 ''old'' [9] (Seconds 5) None 1 1 st0 = (Inr b, st')
         \<and> b \<and> table st' = (table st0)('':1:old'' \<mapsto> \<lparr>row_value = [9], row_expires = 6000\<rparr>))
   \<and> (\<exists>b st'. add cfg0 ''live'' [9] (Seconds 5) None 1 1 st0 = (Inr b, st')
         \<and> \<not> b \<and> table st' = table st0)"
proof -
  have vo: "validate_key cfg0 (make_key cfg0 ''old'' None) = None"
    by (simp add: validate_key_def cfg0_def)
  have vl: "validate_key cfg0 (make_key cfg0 ''live'' None) = None"
    by (simp add: validate_key_def cfg0_def)
  have g: "get_backend_timeout (default_timeout cfg0) 1 (Seconds 5) = Inr 6000"
    by (simp add: get_backend_timeout_def base_get_backend_timeout_def py_int_def)
  have e: "encode cfg0 [9] = Inr [9]"
    by (simp add: encode_def cfg0_def)
  have k: "make_key cfg0 k None = '':1:'' @ k" for k
    by (simp add: cfg0_def)
  have o: "table st0 '':1:old'' = Some \<lparr>row_value = [2], row_expires = 1000\<rparr>"
    by (simp add: st0_def)
  have l: "table st0 '':1:live'' = Some \<lparr>row_value = [1], row_expires = 2000\<rparr>"
    by (simp add: st0_def)
  have A: "\<exists>b st'. add cfg0 ''old'' [9] (Seconds 5) None 1 1 st0 = (Inr b, st')
         \<and> b \<and> table st' = (table st0)('':1:old'' \<mapsto> \<lparr>row_value = [9], row_expires = 6000\<rparr>)"
    using C1_add [OF vo g e, of 1 st0] by (auto simp: k o)
  have B: "\<exists>b st'. add cfg0 ''live'' [9] (Seconds 5) None 1 1 st0 = (Inr b, st')
         \<and> \<not> b \<and> table st' = table st0"
    using C1_add [OF vl g e, of 1 st0] by (auto simp: k l)
  from vo g e A B show ?thesis by blast
qed

subsection \<open>The unconditional upsert\<close>





subsection \<open>Reading at the expiry boundary\<close>

lemma get_valid:
  assumes "validate_key cfg (make_key cfg key version) = None"
  shows "get cfg key dflt version t st =
           ((case table st (make_key cfg key version) of
               None \<Rightarrow> Inr dflt
             | Some r \<Rightarrow> if row_expires r < py_int (t * 1000) then Inr dflt
                         else decode cfg (row_value r)),
            \<lparr>table = table st,
             executed = executed st @
               [(format_table_name (table_name cfg) get_query, [PStr (make_key cfg key version)])]\<rparr>)"
  using assms
  by (simp add: get_def sql_get_def execute_def process_clob_def Let_def split: option.splits)

text \<open>
  C9: for a stored row whose expiry is the current time in milliseconds, the condition
  \<open>expires > now\<close> of the conditional insert is false, so \<open>add\<close> replaces the row and
  returns true, while the miss condition \<open>expires < now\<close> of \<open>get\<close> is false too, so
  \<open>get\<close> at the same reading of the clock still returns the stored value.
\<close>

theorem C9_boundary:
  assumes "validate_key cfg (make_key cfg key version) = None"
      and "get_backend_timeout (default_timeout cfg) t0 timeout = Inr expiry"
      and "encode cfg v2 = Inr blob2"
      and "table st (make_key cfg key version) = Some r"
      and "decode cfg (row_value r) = Inr v1"
      and "0 \<le> t"
      and "row_expires r = py_int (t * 1000)"
  shows "\<not> of_int (row_expires r) > t * 1000
         \<and> \<not> row_expires r < py_int (t * 1000)
         \<and> (\<exists>st'. add cfg key v2 timeout version t0 t st = (Inr True, st')
                \<and> table st' (make_key cfg key version) =
                      Some \<lparr>row_value = blob2, row_expires = expiry\<rparr>)
         \<and> fst (get cfg key dflt version t st) = Inr v1"
proof -
  have le: "\<not> t * 1000 < of_int (row_expires r)"
    using assms(6,7) by (simp add: py_int_def not_less)
  have "add cfg key v2 timeout version t0 t st =
          (Inr True,
           \<lparr>table = sql_set (table st) (make_key cfg key version) blob2 expiry,
            executed = executed st @
              [(format_table_name (table_name cfg) add_query,
                [PStr (make_key cfg key version), PBytes blob2, PInt expiry, PFloat (t * 1000)])]\<rparr>)"
    using sql_add_expired [of "table st" "make_key cfg key version" r "t * 1000" blob2 expiry]
      assms(4) le
    by (simp add: add_valid [OF assms(1,2,3)])
  moreover have "fst (get cfg key dflt version t st) = Inr v1"
    using assms(4,5,7) by (simp add: get_valid [OF assms(1)])
  ultimately show ?thesis
    using le assms(7) by (simp add: sql_set_def)
qed

theorem C9_boundary_witness:
  "validate_key cfg0 (make_key cfg0 ''old'' None) = None
   \<and> get_backend_timeout (default_timeout cfg0) 1 (Seconds 5) = Inr 6000
   \<and> encode cfg0 [9] = Inr [9]
   \<and> table st0 (make_key cfg0 ''old'' None) = Some \<lparr>row_value = [2], row_expires = 1000\<rparr>
   \<and> decode cfg0 [2] = Inr [2]
   \<and> (0::rat) \<le> 1
   \<and> (1000::int) = py_int (1 * 1000)
   \<and> (\<exists>st'. add cfg0 ''old'' [9] (Seconds 5) None 1 1 st0 = (Inr True, st')
          \<and> table st' (make_key cfg0 ''old'' None) = Some \<lparr>row_value = [9], row_expires = 6000\<rparr>)
   \<and> fst (get cfg0 ''old'' [0] None 1 st0) = Inr [2]"
proof -
  have v: "validate_key cfg0 (make_key cfg0 ''old'' None) = None"
    by (simp add: validate_key_def cfg0_def)
  have g: "get_backend_timeout (default_timeout cfg0) 1 (Seconds 5) = Inr 6000"
    by (simp add: get_backend_timeout_def base_get_backend_timeout_def py_int_def)
  have e: "encode cfg0 [9] = Inr [9]"
    by (simp add: encode_def cfg0_def)
  have r: "table st0 (make_key cfg0 ''old'' None) = Some \<lparr>row_value = [2], row_expires = 1000\<rparr>"
    by (simp add: st0_def cfg0_def)
  have d: "decode cfg0 (row_value \<lparr>row_value = [2], row_expires = 1000\<rparr>) = Inr [2]"
    by (simp add: decode_def force_bytes_def cfg0_def)
  have z: "(0::rat) \<le> 1"
    by simp
  have p: "row_expires \<lparr>row_value = [2], row_expires = 1000\<rparr> = py_int (1 * 1000)"
    by (simp add: py_int_def)
  from C9_boundary [OF v g e r d z p, of "[0]"] v g e r d z p show ?thesis
    by simp
qed

subsection \<open>Round trip\<close>



subsection \<open>The bulk read\<close>



















subsection \<open>The reads on the example table\<close>

lemma cfg0_simps:
  "make_key cfg0 key version = '':1:'' @ key"
  "super_validate_key cfg0 key = None"
  "default_timeout cfg0 = Some 300"
  "table_name cfg0 = ''`cache_table`''"
  "pickle_dumps cfg0 b = Some b"
  "pickle_loads cfg0 b = Some b"
  by (simp_all add: cfg0_def)

lemma st0_simps:
  "table st0 = ['':1:live'' \<mapsto> \<lparr>row_value = [1], row_expires = 2000\<rparr>,
                '':1:old'' \<mapsto> \<lparr>row_value = [2], row_expires = 1000\<rparr>]"
  "executed st0 = []"
  by (simp_all add: st0_def)





subsection \<open>The bulk upsert of nothing\<close>

lemma set_many_statement_empty:
  "set_many_statement cfg [] =
     ''INSERT INTO '' @ table_name cfg @ '' (cache_key, value, expires) VALUES  ON DUPLICATE KEY UPDATE value=VALUES(value), expires=VALUES(expires)''"
proof -
  have q: "replace_str ''{{VALUES_CLAUSE}}'' [] set_many_query =
             ''INSERT INTO {table_name} (cache_key, value, expires) VALUES  ON DUPLICATE KEY UPDATE value=VALUES(value), expires=VALUES(expires)''"
    by code_simp
  show ?thesis
    unfolding set_many_statement_def list.map join_str.simps q by simp
qed

text \<open>
  C10: \<open>set_many\<close> with an empty \<open>data\<close> is not a no-op. The join over no rows is the
  empty string, so the statement built has nothing between \<open>VALUES\<close> and
  \<open>ON DUPLICATE KEY UPDATE\<close>; it is issued with an empty parameter list, and the store
  rejects it.
\<close>

theorem C10_set_many_empty:
  assumes "get_backend_timeout (default_timeout cfg) t timeout = Inr expiry"
  shows "join_str '','' (map (\<lambda>key. ''(%s, %s, %s)'') ([] :: (key \<times> 'v) list)) = []
         \<and> set_many_statement cfg [] =
             ''INSERT INTO '' @ table_name cfg @ '' (cache_key, value, expires) VALUES  ON DUPLICATE KEY UPDATE value=VALUES(value), expires=VALUES(expires)''
         \<and> set_many (cfg :: 'v config) [] timeout version t st =
             (Inl ProgrammingError,
              \<lparr>table = table st,
               executed = executed st @ [(set_many_statement cfg [], [])]\<rparr>)"
proof -
  have "set_many cfg [] timeout version t st =
          (Inl ProgrammingError,
           \<lparr>table = table st, executed = executed st @ [(set_many_statement cfg [], [])]\<rparr>)"
    using assms by (simp add: set_many_def sql_set_many_def execute_def Let_def)
  then show ?thesis
    by (simp add: set_many_statement_empty)
qed

theorem C10_set_many_empty_witness:
  "get_backend_timeout (default_timeout cfg0) 1 DEFAULT_TIMEOUT = Inr 301000
   \<and> set_many_statement cfg0 [] =
       ''INSERT INTO `cache_table` (cache_key, value, expires) VALUES  ON DUPLICATE KEY UPDATE value=VALUES(value), expires=VALUES(expires)''
   \<and> set_many cfg0 [] DEFAULT_TIMEOUT None 1 st0 =
       (Inl ProgrammingError,
        \<lparr>table = table st0,
         executed =
           [(''INSERT INTO `cache_table` (cache_key, value, expires) VALUES  ON DUPLICATE KEY UPDATE value=VALUES(value), expires=VALUES(expires)'',
             [])]\<rparr>)"
proof -
  have g: "get_backend_timeout (default_timeout cfg0) 1 DEFAULT_TIMEOUT = Inr 301000"
    by (simp add: get_backend_timeout_def base_get_backend_timeout_def py_int_def cfg0_simps)
  from C10_set_many_empty [OF g, of None st0] g show ?thesis
    by (simp add: cfg0_simps st0_simps)
qed

subsection \<open>Key validation\<close>


lemma validate_key_short: "length key \<le> 250 \<Longrightarrow> validate_key cfg key = super_validate_key cfg key"
  by (simp add: validate_key_def)






end
